theory Spec2Isabelle
  imports Complex_Main
begin

section \<open>Series, missing values and the shared post-processing\<close>

text \<open>
  A pandas Series with the default positional index is a list. Prices are finite
  numbers, modelled as exact reals: rounding, infinities and NaN inputs of the
  floating-point type are outside the model. A cell that pandas shows as NaN (a missing
  value) is \<open>None\<close>, so a column of results is a list of optional numbers.
\<close>

type_synonym series = "real list"
type_synonym column = "real option list"

datatype py_error = IndexError | ValueError

text \<open>
  \<open>Series.shift(k)\<close>: the values move \<open>k\<close> places towards the end (towards the start
  when \<open>k\<close> is negative), the length stays, the vacated places are missing.
\<close>

definition shift_col :: "int \<Rightarrow> 'a option list \<Rightarrow> 'a option list" where
  "shift_col k xs =
     (if 0 \<le> k then take (length xs) (replicate (nat k) None @ xs)
      else drop (nat (- k)) xs @ replicate (min (nat (- k)) (length xs)) None)"

text \<open>\<open>Series.fillna(value)\<close>: every missing cell takes the value.\<close>

definition fillna_col :: "'a \<Rightarrow> 'a option list \<Rightarrow> 'a option list" where
  "fillna_col c xs = map (\<lambda>x. case x of None \<Rightarrow> Some c | Some y \<Rightarrow> Some y) xs"

text \<open>
  \<open>Series.fillna(method=...)\<close>: a missing cell takes the last value before it
  (\<open>ffill\<close>), or the next value after it (\<open>bfill\<close>); with no such value it stays
  missing.
\<close>

datatype fill_method = Ffill | Bfill

fun ffill_from :: "'a option \<Rightarrow> 'a option list \<Rightarrow> 'a option list" where
  "ffill_from prev [] = []"
| "ffill_from prev (None # xs) = prev # ffill_from prev xs"
| "ffill_from prev (Some x # xs) = Some x # ffill_from (Some x) xs"

definition fill_method_col :: "fill_method \<Rightarrow> 'a option list \<Rightarrow> 'a option list" where
  "fill_method_col fm xs =
     (case fm of
        Ffill \<Rightarrow> ffill_from None xs
      | Bfill \<Rightarrow> rev (ffill_from None (rev xs)))"

text \<open>
  The block every indicator ends with: shift when the offset is not 0, then
  \<open>fillna\<close> when the keyword is given, then the fill method when that keyword is given.
\<close>

definition offset_col :: "int \<Rightarrow> 'a option list \<Rightarrow> 'a option list" where
  "offset_col offset xs = (if offset \<noteq> 0 then shift_col offset xs else xs)"

definition fill_col :: "'a option \<Rightarrow> fill_method option \<Rightarrow> 'a option list \<Rightarrow> 'a option list" where
  "fill_col fillna fm xs =
     (let ys = (case fillna of None \<Rightarrow> xs | Some c \<Rightarrow> fillna_col c xs)
      in case fm of None \<Rightarrow> ys | Some m \<Rightarrow> fill_method_col m ys)"

section \<open>Validation helpers of \<open>pandas_ta.utils\<close>\<close>

text \<open>
  Modelled from the spec: \<open>v_series\<close> (called \<open>verify_series\<close> in the older modules) is
  imported from \<open>pandas_ta.utils\<close>, which is not among the source files. The indicators
  call it with the least number of points they need and return nothing when it answers
  \<open>None\<close>: it hands the series back when the series has at least that many points.
\<close>

definition v_series :: "'a list \<Rightarrow> nat \<Rightarrow> 'a list option" where
  "v_series s n = (if n \<le> length s then Some s else None)"

text \<open>
  Modelled from the spec: \<open>v_pos_default\<close> is imported from \<open>pandas_ta.utils\<close>, which is
  not among the source files. It is called with a parameter and that parameter's
  default (\<open>0.02\<close> and \<open>0.2\<close>, the defaults the spec and the docstring of \<open>psar\<close>
  give): a parameter that is given and positive is kept, any other is replaced by the
  default. A parameter left out is \<open>None\<close>.
\<close>

definition v_pos_default :: "real option \<Rightarrow> real \<Rightarrow> real" where
  "v_pos_default var dflt =
     (case var of None \<Rightarrow> dflt | Some x \<Rightarrow> if 0 < x then x else dflt)"

text \<open>
  Modelled from the spec: \<open>v_offset\<close> (\<open>get_offset\<close> in the older modules) is imported
  from \<open>pandas_ta.utils\<close>, which is not among the source files. The offset is an
  integer number of positions, positive or negative, 0 when left out.
\<close>

definition v_offset :: "int option \<Rightarrow> int" where
  "v_offset offset = (case offset of None \<Rightarrow> 0 | Some k \<Rightarrow> k)"

section \<open>Parabolic stop and reverse\<close>

subsection \<open>The initial direction\<close>

text \<open>
  \<open>_falling(high, low, drift)\<close>: elementwise \<open>up = high - high.shift(drift)\<close> and
  \<open>dn = low.shift(drift) - low\<close>, then \<open>(((dn > up) & (dn > 0)) * dn).apply(zero)\<close>,
  whose last element is compared with 0. A comparison of two series of different
  lengths raises \<open>ValueError\<close>; the last element of an empty series raises
  \<open>IndexError\<close>. Where \<open>dn\<close> is missing the product is missing and compares false.

  The helper \<open>zero\<close> of \<open>pandas_ta.utils\<close> is not among the source files and the spec
  does not describe it, so it is a parameter of the model, applied to the cells that
  hold a number.
\<close>

definition sub_col :: "column \<Rightarrow> column \<Rightarrow> column" where
  "sub_col xs ys =
     map2 (\<lambda>x y. case (x, y) of (Some a, Some b) \<Rightarrow> Some (a - b) | _ \<Rightarrow> None) xs ys"

definition dmn_col :: "(real \<Rightarrow> real) \<Rightarrow> column \<Rightarrow> column \<Rightarrow> column" where
  "dmn_col zero dn up =
     map2 (\<lambda>d u. case (d, u) of
                   (Some a, Some b) \<Rightarrow> Some (zero (if a > b \<and> a > 0 then a else 0))
                 | _ \<Rightarrow> None) dn up"

definition psar_falling :: "(real \<Rightarrow> real) \<Rightarrow> series \<Rightarrow> series \<Rightarrow> int \<Rightarrow> py_error + bool" where
  "psar_falling zero high low drift =
     (if length high \<noteq> length low then Inl ValueError
      else
        let up = sub_col (map Some high) (shift_col drift (map Some high));
            dn = sub_col (shift_col drift (map Some low)) (map Some low);
            dmn = dmn_col zero dn up
        in if dmn = [] then Inl IndexError
           else Inr (case last dmn of None \<Rightarrow> False | Some x \<Rightarrow> x > 0))"

subsection \<open>The variables of the loop\<close>

text \<open>
  All the variables \<open>psar\<close> updates, in one record: the scalar state \<open>sar\<close>, \<open>ep\<close>,
  \<open>af\<close>, \<open>falling\<close>; the two locals of the loop body, \<open>sar_new\<close> (the source's
  \<open>_sar\<close>) and \<open>reverse\<close>; and the four result series \<open>long\<close>, \<open>short\<close>, \<open>af_col\<close>
  (the source's \<open>_af\<close>) and \<open>reversal\<close>.
\<close>

record psar_vars =
  sar :: real
  ep :: real
  af :: real
  falling :: bool
  sar_new :: real
  reverse :: bool
  long :: column
  short :: column
  af_col :: column
  reversal :: column

text \<open>
  Lines 61 to 78: the direction from the first two bars, the seeds of \<open>sar\<close> and
  \<open>ep\<close>, the close that replaces the seed of \<open>sar\<close> when one is given (its first
  element: \<open>IndexError\<close> on an empty series), and the four result series, with \<open>af0\<close>
  written into the first two cells of \<open>_af\<close> (a slice assignment: a cell that does
  not exist is skipped).
\<close>

definition psar_init ::
  "(real \<Rightarrow> real) \<Rightarrow> series \<Rightarrow> series \<Rightarrow> series option \<Rightarrow> real \<Rightarrow> py_error + psar_vars" where
  "psar_init zero high low close af0 =
     (case psar_falling zero (take 2 high) (take 2 low) 1 of
        Inl e \<Rightarrow> Inl e
      | Inr fl \<Rightarrow>
          (let sar0 = (if fl then high ! 0 else low ! 0);
               ep0 = (if fl then low ! 0 else high ! 0);
               m = length high;
               v = \<lparr> sar = sar0, ep = ep0, af = af0, falling = fl,
                     sar_new = sar0, reverse = False,
                     long = replicate m None,
                     short = replicate m None,
                     af_col = (replicate m (Some 0))[0 := Some af0, 1 := Some af0],
                     reversal = replicate m (Some 0) \<rparr>
           in case close of
                None \<Rightarrow> Inr v
              | Some c \<Rightarrow> (if c = [] then Inl IndexError else Inr (v\<lparr> sar := c ! 0 \<rparr>))))"

subsection \<open>One pass of the loop body\<close>

text \<open>
  Lines 86 to 103: the tentative stop, then by direction the reversal test against
  the tentative stop, the new extreme point with its step of the acceleration factor,
  and the clamp of the tentative stop by the two bars before.
\<close>

definition psar_track :: "real \<Rightarrow> real \<Rightarrow> series \<Rightarrow> series \<Rightarrow> nat \<Rightarrow> psar_vars \<Rightarrow> psar_vars" where
  "psar_track paf max_af high low row v =
     (let high_row = high ! row;
          low_row = low ! row;
          s = sar v + af v * (ep v - sar v)
      in if falling v then
           v\<lparr> reverse := high_row > s,
              ep := (if low_row < ep v then low_row else ep v),
              af := (if low_row < ep v then min (af v + paf) max_af else af v),
              sar_new := max (high ! (row - 1)) (max (high ! (row - 2)) s) \<rparr>
         else
           v\<lparr> reverse := low_row < s,
              ep := (if high_row > ep v then high_row else ep v),
              af := (if high_row > ep v then min (af v + paf) max_af else af v),
              sar_new := min (low ! (row - 1)) (min (low ! (row - 2)) s) \<rparr>)"

text \<open>
  Lines 105 to 116: on a reversal the stop is the extreme point (or, in the
  TradingView variant, the clamp of the opposite direction with the extreme point), the
  acceleration factor is \<open>af0\<close> again, the direction flips, and the extreme point is the
  low of the bar when the new direction is falling, else its high.
\<close>

definition psar_flip :: "bool \<Rightarrow> real \<Rightarrow> series \<Rightarrow> series \<Rightarrow> nat \<Rightarrow> psar_vars \<Rightarrow> psar_vars" where
  "psar_flip tv af0 high low row v =
     (if reverse v then
        v\<lparr> sar_new :=
             (if tv then
                (if falling v then min (low ! (row - 1)) (min (low ! (row - 2)) (ep v))
                 else max (high ! (row - 1)) (max (high ! (row - 2)) (ep v)))
              else ep v),
           af := af0,
           falling := \<not> falling v,
           ep := (if \<not> falling v then low ! row else high ! row) \<rparr>
      else v)"

text \<open>
  Lines 118 to 127: the stop is committed and written to \<open>short\<close> when the direction
  is falling, else to \<open>long\<close>; the acceleration factor and the reversal flag are
  recorded.
\<close>

definition psar_commit :: "nat \<Rightarrow> psar_vars \<Rightarrow> psar_vars" where
  "psar_commit row v =
     (let w = v\<lparr> sar := sar_new v \<rparr>
      in (if falling w then w\<lparr> short := (short w)[row := Some (sar w)] \<rparr>
          else w\<lparr> long := (long w)[row := Some (sar w)] \<rparr>)
         \<lparr> af_col := (af_col w)[row := Some (af w)],
           reversal := (reversal w)[row := Some (if reverse w then 1 else 0)] \<rparr>)"

text \<open>
  The whole body for one row. \<open>high\<close> has the row (the loop runs over its length);
  \<open>low.iat[row]\<close> raises \<open>IndexError\<close> when \<open>low\<close> is shorter.
\<close>

definition psar_row ::
  "bool \<Rightarrow> real \<Rightarrow> real \<Rightarrow> real \<Rightarrow> series \<Rightarrow> series \<Rightarrow> nat \<Rightarrow> psar_vars \<Rightarrow> py_error + psar_vars" where
  "psar_row tv paf af0 max_af high low row v =
     (if length low \<le> row then Inl IndexError
      else Inr (psar_commit row (psar_flip tv af0 high low row (psar_track paf max_af high low row v))))"

text \<open>\<open>for row in range(2, m)\<close>, stopping at the first error.\<close>

fun psar_rows ::
  "bool \<Rightarrow> real \<Rightarrow> real \<Rightarrow> real \<Rightarrow> series \<Rightarrow> series \<Rightarrow> nat list \<Rightarrow> psar_vars \<Rightarrow> py_error + psar_vars" where
  "psar_rows tv paf af0 max_af high low [] v = Inr v"
| "psar_rows tv paf af0 max_af high low (row # rows) v =
     (case psar_row tv paf af0 max_af high low row v of
        Inl e \<Rightarrow> Inl e
      | Inr w \<Rightarrow> psar_rows tv paf af0 max_af high low rows w)"

subsection \<open>The function\<close>

text \<open>
  The frame \<open>psar\<close> returns: the columns \<open>PSARl\<close>, \<open>PSARs\<close>, \<open>PSARaf\<close> and \<open>PSARr\<close>
  (the names' suffix, the two parameters printed as text, is left out).
\<close>

record psar_frame =
  PSARl :: column
  PSARs :: column
  PSARaf :: column
  PSARr :: column

definition psar_post :: "int \<Rightarrow> real option \<Rightarrow> fill_method option \<Rightarrow> psar_vars \<Rightarrow> psar_frame" where
  "psar_post offset fillna fm v =
     \<lparr> PSARl = fill_col fillna fm (offset_col offset (long v)),
       PSARs = fill_col fillna fm (offset_col offset (short v)),
       PSARaf = fill_col fillna fm (offset_col offset (af_col v)),
       PSARr = fill_col fillna fm (offset_col offset (reversal v)) \<rparr>"

text \<open>
  Lines 54 to 58, the effective parameters: \<open>paf\<close> is the argument \<open>af\<close> or 0.02,
  \<open>af0\<close> is the argument \<open>af0\<close> or \<open>paf\<close>, \<open>max_af\<close> is the argument \<open>max_af\<close> or
  0.2.
\<close>

definition psar_paf :: "real option \<Rightarrow> real" where
  "psar_paf af_arg = v_pos_default af_arg 0.02"

definition psar_af0 :: "real option \<Rightarrow> real option \<Rightarrow> real" where
  "psar_af0 af0 af_arg = v_pos_default af0 (psar_paf af_arg)"

definition psar_max_af :: "real option \<Rightarrow> real" where
  "psar_max_af max_af = v_pos_default max_af 0.2"

text \<open>
  Lines 61 to 127 with the effective parameters: the initial state, then the rows
  \<open>2, ..., n - 1\<close>.
\<close>

definition psar_run ::
  "(real \<Rightarrow> real) \<Rightarrow> series \<Rightarrow> series \<Rightarrow> series option \<Rightarrow> real \<Rightarrow> real \<Rightarrow> real \<Rightarrow> bool \<Rightarrow> nat \<Rightarrow>
   py_error + psar_vars" where
  "psar_run zero high low close paf af0 max_af tv n =
     (case psar_init zero high low close af0 of
        Inl e \<Rightarrow> Inl e
      | Inr v \<Rightarrow> psar_rows tv paf af0 max_af high low [2..<n] v)"

text \<open>
  \<open>psar(high, low, close, af0, af, max_af, tv, offset, fillna=, fill_method=)\<close>. An
  argument left out is \<open>None\<close>. The result is an error a statement raised, or
  \<open>None\<close> for the bare \<open>return\<close>, or the frame.
\<close>

definition psar ::
  "(real \<Rightarrow> real) \<Rightarrow> series \<Rightarrow> series \<Rightarrow> series option \<Rightarrow> real option \<Rightarrow> real option \<Rightarrow> real option \<Rightarrow>
   bool \<Rightarrow> int option \<Rightarrow> real option \<Rightarrow> fill_method option \<Rightarrow> py_error + psar_frame option" where
  "psar zero high low close af0 af_arg max_af tv offset fillna fm =
     (case (v_series high 1, v_series low 1) of
        (Some h, Some l) \<Rightarrow>
          (case psar_run zero h l close (psar_paf af_arg) (psar_af0 af0 af_arg)
                  (psar_max_af max_af) tv (length h) of
             Inl e \<Rightarrow> Inl e
           | Inr v \<Rightarrow> Inr (Some (psar_post (v_offset offset) fillna fm v)))
      | _ \<Rightarrow> Inr None)"

subsection \<open>What the theorems speak about\<close>

text \<open>
  The loop variables of a call after the row \<open>i\<close> (for \<open>i < 2\<close>: before the first
  row): the same initial state and the same loop body, stopped after row \<open>i\<close>.
\<close>

definition psar_at ::
  "(real \<Rightarrow> real) \<Rightarrow> series \<Rightarrow> series \<Rightarrow> series option \<Rightarrow> real option \<Rightarrow> real option \<Rightarrow> real option \<Rightarrow>
   bool \<Rightarrow> nat \<Rightarrow> py_error + psar_vars" where
  "psar_at zero high low close af0 af_arg max_af tv i =
     psar_run zero high low close (psar_paf af_arg) (psar_af0 af0 af_arg)
       (psar_max_af max_af) tv (Suc i)"

text \<open>A close series, when one is given, has a first element.\<close>

definition close_ok :: "series option \<Rightarrow> bool" where
  "close_ok close = (case close of None \<Rightarrow> True | Some c \<Rightarrow> c \<noteq> [])"

text \<open>
  Modelled from the spec: the helper \<open>zero\<close> of \<open>pandas_ta.utils\<close> is not among the
  source files and the spec does not describe it. In the library it returns 0 for a
  number of magnitude below the epsilon of double precision, \<open>1 / 2 ^ 52\<close>, and the
  number itself otherwise. The concrete runs below use it, and so does the statement
  about the initial direction; every other theorem holds for any \<open>zero\<close>.
\<close>

definition zero_eps :: "real \<Rightarrow> real" where
  "zero_eps x = (if \<bar>x\<bar> < 1 / 2 ^ 52 then 0 else x)"

section \<open>BR and AR\<close>

text \<open>
  A quotient of two floating-point numbers is a number, or an infinity when a number
  other than 0 is divided by 0; 0 divided by 0 is missing. The model has one zero, so
  the sign of an infinity is the sign of the numerator.
\<close>

datatype quot = Fin real | PosInf | NegInf

type_synonym qcolumn = "quot option list"

definition div_cell :: "real option \<Rightarrow> real option \<Rightarrow> quot option" where
  "div_cell x y =
     (case (x, y) of
        (Some a, Some b) \<Rightarrow>
          (if b \<noteq> 0 then Some (Fin (a / b))
           else if 0 < a then Some PosInf
           else if a < 0 then Some NegInf
           else None)
      | _ \<Rightarrow> None)"

text \<open>
  An operation on two series pairs the cells of the same index label; a label that
  one series lacks gives a missing cell. With the default index the labels are the
  positions.
\<close>

definition cell_at :: "'a option list \<Rightarrow> nat \<Rightarrow> 'a option" where
  "cell_at xs i = (if i < length xs then xs ! i else None)"

definition div_col :: "column \<Rightarrow> column \<Rightarrow> qcolumn" where
  "div_col xs ys =
     map (\<lambda>i. div_cell (cell_at xs i) (cell_at ys i)) [0..<max (length xs) (length ys)]"

text \<open>
  \<open>s.rolling(n).sum()\<close>: the sum of the \<open>n\<close> cells that end at the position; missing
  where fewer than \<open>n\<close> cells are there or one of them is missing.
\<close>

definition rolling_sum :: "nat \<Rightarrow> column \<Rightarrow> column" where
  "rolling_sum n xs =
     map (\<lambda>i. if Suc i < n then None
               else (case those (take n (drop (Suc i - n) xs)) of
                       None \<Rightarrow> None
                     | Some vs \<Rightarrow> Some (sum_list vs)))
       [0..<length xs]"

text \<open>\<open>s[s < 0] = 0\<close> and \<open>scalar * s\<close>.\<close>

definition zero_negative :: "column \<Rightarrow> column" where
  "zero_negative xs = map (map_option (\<lambda>x. if x < 0 then 0 else x)) xs"

definition scale_col :: "real \<Rightarrow> column \<Rightarrow> column" where
  "scale_col c xs = map (map_option (\<lambda>x. c * x)) xs"

text \<open>
  Lines 37 and 38: \<open>length\<close> is the given integer when it is positive, else 26;
  \<open>scalar\<close> is the given number unless it is absent or 0, then 100.
\<close>

definition brar_length :: "int option \<Rightarrow> nat" where
  "brar_length len = (case len of None \<Rightarrow> 26 | Some n \<Rightarrow> if 0 < n then nat n else 26)"

definition brar_scalar :: "real option \<Rightarrow> real" where
  "brar_scalar scalar = (case scalar of None \<Rightarrow> 100 | Some c \<Rightarrow> if c \<noteq> 0 then c else 100)"

text \<open>
  Lines 39 to 62, the two ratios before the offset. The helpers \<open>non_zero_range\<close> and
  \<open>get_drift\<close> of \<open>pandas_ta.utils\<close> are not among the source files and the spec does
  not describe them: they are parameters of the model.
\<close>

definition brar_ar ::
  "(column \<Rightarrow> column \<Rightarrow> column) \<Rightarrow> series \<Rightarrow> series \<Rightarrow> series \<Rightarrow> nat \<Rightarrow> real \<Rightarrow> qcolumn" where
  "brar_ar non_zero_range open_s high low len scalar =
     (let high_open_range = non_zero_range (map Some high) (map Some open_s);
          open_low_range = non_zero_range (map Some open_s) (map Some low)
      in div_col (scale_col scalar (rolling_sum len high_open_range))
                 (rolling_sum len open_low_range))"

definition brar_br ::
  "(column \<Rightarrow> column \<Rightarrow> column) \<Rightarrow> series \<Rightarrow> series \<Rightarrow> series \<Rightarrow> nat \<Rightarrow> real \<Rightarrow> int \<Rightarrow> qcolumn" where
  "brar_br non_zero_range high low close len scalar drift =
     (let hcy = zero_negative (non_zero_range (map Some high) (shift_col drift (map Some close)));
          cyl = zero_negative (non_zero_range (shift_col drift (map Some close)) (map Some low))
      in div_col (scale_col scalar (rolling_sum len hcy)) (rolling_sum len cyl))"

text \<open>
  The frame \<open>brar\<close> returns, with the columns \<open>AR\<close> and \<open>BR\<close>; a frame of two series
  of different lengths has the missing cells of the shorter one.
\<close>

record brar_frame =
  AR :: qcolumn
  BR :: qcolumn

definition pad_col :: "nat \<Rightarrow> 'a option list \<Rightarrow> 'a option list" where
  "pad_col n xs = xs @ replicate (n - length xs) None"

text \<open>
  \<open>brar(open_, high, low, close, length, scalar, drift, offset, fillna=,
  fill_method=)\<close>. An argument left out is \<open>None\<close>; the result is \<open>None\<close> for the bare
  \<open>return\<close>. Lines 64 to 67: when the offset is not 0, \<open>ar\<close> is shifted, and \<open>br\<close>
  becomes the shift of the \<open>ar\<close> just shifted.
\<close>

definition brar ::
  "(column \<Rightarrow> column \<Rightarrow> column) \<Rightarrow> (int option \<Rightarrow> int) \<Rightarrow> series \<Rightarrow> series \<Rightarrow> series \<Rightarrow> series \<Rightarrow>
   int option \<Rightarrow> real option \<Rightarrow> int option \<Rightarrow> int option \<Rightarrow> real option \<Rightarrow> fill_method option \<Rightarrow>
   brar_frame option" where
  "brar non_zero_range get_drift open_s high low close len scalar drift offset fillna fm =
     (let n = brar_length len;
          c = brar_scalar scalar;
          d = get_drift drift;
          off = v_offset offset
      in case (v_series open_s n, v_series high n, v_series low n, v_series close n) of
           (Some o', Some h', Some l', Some c') \<Rightarrow>
             (let ar0 = brar_ar non_zero_range open_s high low n c;
                  br0 = brar_br non_zero_range h' l' c' n c d;
                  ar1 = (if off \<noteq> 0 then shift_col off ar0 else ar0);
                  br1 = (if off \<noteq> 0 then shift_col off ar1 else br0);
                  ar2 = fill_col (map_option Fin fillna) fm ar1;
                  br2 = fill_col (map_option Fin fillna) fm br1;
                  m = max (length ar2) (length br2)
              in Some \<lparr> AR = pad_col m ar2, BR = pad_col m br2 \<rparr>)
         | _ \<Rightarrow> None)"

text \<open>
  Modelled from the spec: \<open>non_zero_range\<close> and \<open>get_drift\<close> are imported from
  \<open>pandas_ta.utils\<close>, which is not among the source files, and the spec does not
  describe them. In the library \<open>non_zero_range\<close> is the difference of the two series,
  with the epsilon of double precision added to every cell when one of them is 0, and
  \<open>get_drift\<close> is the given integer unless it is absent or 0, then 1. Only the concrete
  run uses them; the theorem about \<open>brar\<close> holds for any two helpers.
\<close>

definition non_zero_range_eps :: "column \<Rightarrow> column \<Rightarrow> column" where
  "non_zero_range_eps xs ys =
     (let diff = map (\<lambda>i. case (cell_at xs i, cell_at ys i) of
                            (Some a, Some b) \<Rightarrow> Some (a - b)
                          | _ \<Rightarrow> None) [0..<max (length xs) (length ys)]
      in if Some 0 \<in> set diff then map (map_option (\<lambda>x. x + 1 / 2 ^ 52)) diff else diff)"

definition get_drift_or_one :: "int option \<Rightarrow> int" where
  "get_drift_or_one drift = (case drift of None \<Rightarrow> 1 | Some k \<Rightarrow> if k \<noteq> 0 then k else 1)"

section \<open>Series of the rising scenario\<close>




section \<open>Lemmas about the loop\<close>

subsection \<open>The three parts of the loop body, field by field\<close>

lemma track_fields:
  "sar (psar_track paf mx high low row v) = sar v"
  "falling (psar_track paf mx high low row v) = falling v"
  "long (psar_track paf mx high low row v) = long v"
  "short (psar_track paf mx high low row v) = short v"
  "af_col (psar_track paf mx high low row v) = af_col v"
  "reversal (psar_track paf mx high low row v) = reversal v"
  by (simp_all add: psar_track_def Let_def)



lemma track_af:
  "af (psar_track paf mx high low row v) =
     (if (if falling v then low ! row < ep v else high ! row > ep v)
      then min (af v + paf) mx else af v)"
  by (simp add: psar_track_def Let_def)


lemma flip_fields:
  "sar (psar_flip tv a0 high low row v) = sar v"
  "reverse (psar_flip tv a0 high low row v) = reverse v"
  "long (psar_flip tv a0 high low row v) = long v"
  "short (psar_flip tv a0 high low row v) = short v"
  "af_col (psar_flip tv a0 high low row v) = af_col v"
  "reversal (psar_flip tv a0 high low row v) = reversal v"
  "falling (psar_flip tv a0 high low row v) = (if reverse v then \<not> falling v else falling v)"
  "af (psar_flip tv a0 high low row v) = (if reverse v then a0 else af v)"
  "ep (psar_flip tv a0 high low row v) =
     (if reverse v then (if \<not> falling v then low ! row else high ! row) else ep v)"
  by (simp_all add: psar_flip_def)


lemma commit_fields:
  "sar (psar_commit row v) = sar_new v"
  "ep (psar_commit row v) = ep v"
  "af (psar_commit row v) = af v"
  "falling (psar_commit row v) = falling v"
  "reverse (psar_commit row v) = reverse v"
  "sar_new (psar_commit row v) = sar_new v"
  "long (psar_commit row v) = (if falling v then long v else (long v)[row := Some (sar_new v)])"
  "short (psar_commit row v) = (if falling v then (short v)[row := Some (sar_new v)] else short v)"
  "af_col (psar_commit row v) = (af_col v)[row := Some (af v)]"
  "reversal (psar_commit row v) = (reversal v)[row := Some (if reverse v then 1 else 0)]"
  by (simp_all add: psar_commit_def Let_def)

lemmas step_fields = commit_fields flip_fields track_fields

lemma psar_rows_append:
  "psar_rows tv paf a0 mx high low (xs @ ys) v =
     (case psar_rows tv paf a0 mx high low xs v of
        Inl e \<Rightarrow> Inl e
      | Inr w \<Rightarrow> psar_rows tv paf a0 mx high low ys w)"
  by (induction xs arbitrary: v) (auto split: sum.splits)

lemma psar_rows_total:
  "\<forall>r \<in> set rows. r < length low \<Longrightarrow> \<exists>w. psar_rows tv paf a0 mx high low rows v = Inr w"
  by (induction rows arbitrary: v) (auto simp: psar_row_def)

lemma psar_row_cols:
  assumes "psar_row tv paf a0 mx high low row v = Inr w"
  shows "length (long w) = length (long v)" "length (short w) = length (short v)"
        "length (af_col w) = length (af_col v)" "length (reversal w) = length (reversal v)"
        "j \<noteq> row \<Longrightarrow> long w ! j = long v ! j" "j \<noteq> row \<Longrightarrow> short w ! j = short v ! j"
        "j \<noteq> row \<Longrightarrow> af_col w ! j = af_col v ! j" "j \<noteq> row \<Longrightarrow> reversal w ! j = reversal v ! j"
  using assms by (auto simp: psar_row_def step_fields split: if_splits)

lemma psar_rows_cols:
  assumes "psar_rows tv paf a0 mx high low rows v = Inr w"
  shows "length (long w) = length (long v) \<and> length (short w) = length (short v) \<and>
         length (af_col w) = length (af_col v) \<and> length (reversal w) = length (reversal v) \<and>
         (j \<notin> set rows \<longrightarrow> long w ! j = long v ! j \<and> short w ! j = short v ! j \<and>
            af_col w ! j = af_col v ! j \<and> reversal w ! j = reversal v ! j)"
  using assms
proof (induction rows arbitrary: v)
  case Nil
  then show ?case by simp
next
  case (Cons r rows)
  from Cons.prems obtain u where u: "psar_row tv paf a0 mx high low r v = Inr u"
    and w: "psar_rows tv paf a0 mx high low rows u = Inr w"
    by (auto split: sum.splits)
  from Cons.IH[OF w] psar_row_cols[OF u] show ?case by auto
qed

subsection \<open>The initial state and the rows\<close>

lemma length_shift_col [simp]: "length (shift_col k xs) = length xs"
  by (auto simp: shift_col_def)

lemma length_sub_col [simp]: "length (sub_col xs ys) = min (length xs) (length ys)"
  by (simp add: sub_col_def)

lemma length_dmn_col [simp]: "length (dmn_col zero xs ys) = min (length xs) (length ys)"
  by (simp add: dmn_col_def)

lemma psar_falling_total:
  assumes "length high = length low" "high \<noteq> []"
  shows "\<exists>b. psar_falling zero high low 1 = Inr b"
proof -
  have "length (dmn_col zero (sub_col (shift_col 1 (map Some low)) (map Some low))
      (sub_col (map Some high) (shift_col 1 (map Some high)))) = length high"
    using assms by simp
  then have "dmn_col zero (sub_col (shift_col 1 (map Some low)) (map Some low))
      (sub_col (map Some high) (shift_col 1 (map Some high))) \<noteq> []"
    using assms(2) by (metis length_0_conv)
  then show ?thesis using assms(1) by (simp add: psar_falling_def Let_def)
qed

lemma psar_falling_two:
  "psar_falling zero [h0, h1] [l0, l1] 1 =
     Inr (0 < zero (if l0 - l1 > h1 - h0 \<and> l0 - l1 > 0 then l0 - l1 else 0))"
  by (simp add: psar_falling_def sub_col_def dmn_col_def shift_col_def Let_def)

lemma psar_init_total:
  assumes "length low = length high" "high \<noteq> []" "close_ok close"
  shows "\<exists>v. psar_init zero high low close a0 = Inr v"
proof -
  have "length (take 2 high) = length (take 2 low)" "take 2 high \<noteq> []"
    using assms by auto
  from psar_falling_total[OF this]
  obtain b where "psar_falling zero (take 2 high) (take 2 low) 1 = Inr b" by blast
  then show ?thesis using assms(3)
    by (auto simp: psar_init_def close_ok_def Let_def split: option.splits)
qed

lemma psar_init_cols:
  assumes "psar_init zero high low close a0 = Inr v"
  shows "long v = replicate (length high) None"
        "short v = replicate (length high) None"
        "reversal v = replicate (length high) (Some 0)"
        "af_col v = (replicate (length high) (Some 0))[0 := Some a0, 1 := Some a0]"
        "af v = a0"
  using assms
  by (auto simp: psar_init_def Let_def split: sum.splits option.splits if_splits)

lemma psar_run_total:
  assumes "length low = length high" "high \<noteq> []" "close_ok close" "n \<le> length high"
  shows "\<exists>v. psar_run zero high low close paf a0 mx tv n = Inr v"
proof -
  from psar_init_total[OF assms(1-3)]
  obtain v0 where v0: "psar_init zero high low close a0 = Inr v0" by blast
  have "\<forall>r \<in> set [2..<n]. r < length low" using assms(1,4) by auto
  from psar_rows_total[OF this]
  obtain w where "psar_rows tv paf a0 mx high low [2..<n] v0 = Inr w" by blast
  with v0 show ?thesis by (simp add: psar_run_def)
qed

lemma psar_run_Suc:
  assumes "2 \<le> i"
  shows "psar_run zero high low close paf a0 mx tv (Suc i) =
     (case psar_run zero high low close paf a0 mx tv i of
        Inl e \<Rightarrow> Inl e
      | Inr v \<Rightarrow> psar_row tv paf a0 mx high low i v)"
proof -
  have "[2..<Suc i] = [2..<i] @ [i]" using assms by simp
  then show ?thesis
    by (simp add: psar_run_def psar_rows_append split: sum.splits)
qed

lemma psar_run_cols:
  assumes "psar_run zero high low close paf a0 mx tv n = Inr v"
  shows "length (long v) = length high" "length (short v) = length high"
        "length (af_col v) = length high" "length (reversal v) = length high"
        "j < 2 \<or> n \<le> j \<Longrightarrow> long v ! j = replicate (length high) None ! j"
        "j < 2 \<or> n \<le> j \<Longrightarrow> short v ! j = replicate (length high) None ! j"
        "j < 2 \<or> n \<le> j \<Longrightarrow> reversal v ! j = replicate (length high) (Some 0) ! j"
        "j < 2 \<or> n \<le> j \<Longrightarrow>
           af_col v ! j = (replicate (length high) (Some 0))[0 := Some a0, 1 := Some a0] ! j"
proof -
  from assms obtain v0 where v0: "psar_init zero high low close a0 = Inr v0"
    and r: "psar_rows tv paf a0 mx high low [2..<n] v0 = Inr v"
    by (auto simp: psar_run_def split: sum.splits)
  note c = psar_rows_cols[OF r, of j] psar_init_cols[OF v0]
  show "length (long v) = length high" "length (short v) = length high"
        "length (af_col v) = length high" "length (reversal v) = length high"
    using c by simp_all
  show "j < 2 \<or> n \<le> j \<Longrightarrow> long v ! j = replicate (length high) None ! j"
    using c by auto
  show "j < 2 \<or> n \<le> j \<Longrightarrow> short v ! j = replicate (length high) None ! j"
    using c by auto
  show "j < 2 \<or> n \<le> j \<Longrightarrow> reversal v ! j = replicate (length high) (Some 0) ! j"
    using c by auto
  show "j < 2 \<or> n \<le> j \<Longrightarrow>
           af_col v ! j = (replicate (length high) (Some 0))[0 := Some a0, 1 := Some a0] ! j"
    using c by auto
qed

lemma psar_run_later:
  assumes w: "psar_run zero high low close paf a0 mx tv n = Inr w"
    and u: "psar_run zero high low close paf a0 mx tv (Suc i) = Inr u"
    and i: "2 \<le> i" "i < n"
  shows "long w ! i = long u ! i" "short w ! i = short u ! i"
        "af_col w ! i = af_col u ! i" "reversal w ! i = reversal u ! i"
proof -
  have split: "[2..<n] = [2..<Suc i] @ [Suc i..<n]"
    using upt_add_eq_append[of 2 "Suc i" "n - Suc i"] i by simp
  from u obtain v0 where v0: "psar_init zero high low close a0 = Inr v0"
    and ru: "psar_rows tv paf a0 mx high low [2..<Suc i] v0 = Inr u"
    by (auto simp: psar_run_def split: sum.splits)
  from w v0 ru have "psar_rows tv paf a0 mx high low [Suc i..<n] u = Inr w"
    by (simp add: psar_run_def split psar_rows_append)
  from psar_rows_cols[OF this, of i]
  show "long w ! i = long u ! i" "short w ! i = short u ! i"
        "af_col w ! i = af_col u ! i" "reversal w ! i = reversal u ! i"
    by auto
qed

lemma psar_row_written:
  assumes v: "psar_run zero high low close paf a0 mx tv i = Inr v"
    and u: "psar_row tv paf a0 mx high low i v = Inr u"
    and i: "2 \<le> i" "i < length high"
  shows "long u ! i = (if falling u then None else Some (sar u))"
        "short u ! i = (if falling u then Some (sar u) else None)"
        "af_col u ! i = Some (af u)"
        "reversal u ! i = Some (if reverse u then 1 else 0)"
proof -
  note c = psar_run_cols(1-4)[OF v] psar_run_cols(5-8)[OF v, where j = i]
  from u have ueq: "u = psar_commit i (psar_flip tv a0 high low i (psar_track paf mx high low i v))"
    by (auto simp: psar_row_def split: if_splits)
  show "long u ! i = (if falling u then None else Some (sar u))"
    using c i by (simp add: ueq step_fields)
  show "short u ! i = (if falling u then Some (sar u) else None)"
    using c i by (simp add: ueq step_fields)
  show "af_col u ! i = Some (af u)"
    using c i by (simp add: ueq step_fields)
  show "reversal u ! i = Some (if reverse u then 1 else 0)"
    using c i by (simp add: ueq step_fields)
qed

lemma psar_paf_pos: "0 < psar_paf af_arg"
  by (simp add: psar_paf_def v_pos_default_def split: option.splits)

lemma psar_frame_plain:
  assumes "length low = length high" "high \<noteq> []" "v_offset offset = 0"
    and "psar_run zero high low close (psar_paf af_arg) (psar_af0 af0 af_arg)
           (psar_max_af max_af) tv (length high) = Inr w"
  shows "psar zero high low close af0 af_arg max_af tv offset None None =
           Inr (Some \<lparr> PSARl = long w, PSARs = short w, PSARaf = af_col w, PSARr = reversal w \<rparr>)"
proof -
  have "v_series high 1 = Some high" "v_series low 1 = Some low"
    using assms(1,2) by (cases high; simp add: v_series_def)+
  then show ?thesis using assms(3,4)
    by (simp add: psar_def psar_post_def fill_col_def offset_col_def)
qed

lemma psar_rows_invariant:
  assumes "psar_rows tv paf a0 mx high low rows v = Inr w" "P v"
    and "\<And>r x y. psar_row tv paf a0 mx high low r x = Inr y \<Longrightarrow> P x \<Longrightarrow> P y"
  shows "P w"
  using assms(1,2)
proof (induction rows arbitrary: v)
  case Nil
  then show ?case by simp
next
  case (Cons r rows)
  from Cons.prems(1) obtain u where u: "psar_row tv paf a0 mx high low r v = Inr u"
    and w: "psar_rows tv paf a0 mx high low rows u = Inr w"
    by (auto split: sum.splits)
  from assms(3)[OF u Cons.prems(2)] Cons.IH[OF w] show ?case by blast
qed

lemma psar_row_af_bounds:
  assumes "psar_row tv paf a0 mx high low r x = Inr y" "a0 \<le> mx" "0 \<le> paf"
    and "a0 \<le> af x \<and> af x \<le> mx"
  shows "a0 \<le> af y \<and> af y \<le> mx"
proof -
  from assms(1) have y: "y = psar_commit r (psar_flip tv a0 high low r (psar_track paf mx high low r x))"
    by (auto simp: psar_row_def split: if_splits)
  show ?thesis using assms(2-4)
    by (simp add: y step_fields track_af)
qed

lemma psar_run_af_bounds:
  assumes "psar_run zero high low close paf a0 mx tv n = Inr v" "a0 \<le> mx" "0 \<le> paf"
  shows "a0 \<le> af v \<and> af v \<le> mx"
proof -
  from assms(1) obtain v0 where v0: "psar_init zero high low close a0 = Inr v0"
    and r: "psar_rows tv paf a0 mx high low [2..<n] v0 = Inr v"
    by (auto simp: psar_run_def split: sum.splits)
  have "a0 \<le> af v0 \<and> af v0 \<le> mx" using psar_init_cols(5)[OF v0] assms(2) by simp
  from psar_rows_invariant[where P = "\<lambda>s. a0 \<le> af s \<and> af s \<le> mx", OF r this]
  show ?thesis using psar_row_af_bounds assms(2,3) by blast
qed


lemma psar_row_view:
  assumes "length low = length high" "close_ok close" "v_offset offset = 0"
    and "2 \<le> i" "i < length high"
  obtains w :: psar_vars and v u where
    "psar zero high low close af0 af_arg max_af tv offset None None =
       Inr (Some \<lparr> PSARl = long w, PSARs = short w, PSARaf = af_col w, PSARr = reversal w \<rparr>)"
    "psar_at zero high low close af0 af_arg max_af tv (i - 1) = Inr v"
    "psar_at zero high low close af0 af_arg max_af tv i = Inr u"
    "u = psar_commit i (psar_flip tv (psar_af0 af0 af_arg) high low i
           (psar_track (psar_paf af_arg) (psar_max_af max_af) high low i v))"
    "long w ! i = (if falling u then None else Some (sar u))"
    "short w ! i = (if falling u then Some (sar u) else None)"
    "af_col w ! i = Some (af u)"
    "reversal w ! i = Some (if reverse u then 1 else 0)"
proof -
  let ?run = "psar_run zero high low close (psar_paf af_arg) (psar_af0 af0 af_arg)
           (psar_max_af max_af) tv"
  have ne: "high \<noteq> []" using assms(5) by auto
  obtain w :: psar_vars where w: "?run (length high) = Inr w"
    using psar_run_total[OF assms(1) ne assms(2), where n = "length high"] by blast
  obtain v where v: "?run i = Inr v"
    using psar_run_total[OF assms(1) ne assms(2), where n = i] assms(5)
    by (meson less_imp_le_nat)
  obtain u where u: "?run (Suc i) = Inr u"
    using psar_run_total[OF assms(1) ne assms(2), where n = "Suc i"] assms(5)
    by (meson Suc_leI)
  have row: "psar_row tv (psar_paf af_arg) (psar_af0 af0 af_arg) (psar_max_af max_af)
      high low i v = Inr u"
    using u v psar_run_Suc[OF assms(4), where zero = zero and high = high and low = low
        and close = close and paf = "psar_paf af_arg" and ?a0.0 = "psar_af0 af0 af_arg"
        and mx = "psar_max_af max_af" and tv = tv] by simp
  have ueq: "u = psar_commit i (psar_flip tv (psar_af0 af0 af_arg) high low i
           (psar_track (psar_paf af_arg) (psar_max_af max_af) high low i v))"
    using row by (auto simp: psar_row_def split: if_splits)
  have pv: "psar_at zero high low close af0 af_arg max_af tv (i - 1) = Inr v"
    using v assms(4) by (simp add: psar_at_def)
  have pu: "psar_at zero high low close af0 af_arg max_af tv i = Inr u"
    using u by (simp add: psar_at_def)
  note fr = psar_frame_plain[OF assms(1) ne assms(3) w]
  note lat = psar_run_later[OF w u assms(4,5)]
  note wr = psar_row_written[OF v row assms(4,5)]
  show thesis
    using that[OF fr pv pu ueq] lat wr by simp
qed

lemma psar_seed_view:
  assumes "length low = length high" "close_ok close" "v_offset offset = 0"
    and "i < 2" "i < length high"
  obtains w :: psar_vars where
    "psar zero high low close af0 af_arg max_af tv offset None None =
       Inr (Some \<lparr> PSARl = long w, PSARs = short w, PSARaf = af_col w, PSARr = reversal w \<rparr>)"
    "long w ! i = None" "short w ! i = None"
    "af_col w ! i = Some (psar_af0 af0 af_arg)" "reversal w ! i = Some 0"
proof -
  let ?run = "psar_run zero high low close (psar_paf af_arg) (psar_af0 af0 af_arg)
           (psar_max_af max_af) tv"
  have ne: "high \<noteq> []" using assms(5) by auto
  obtain w :: psar_vars where w: "?run (length high) = Inr w"
    using psar_run_total[OF assms(1) ne assms(2), where n = "length high"] by blast
  note fr = psar_frame_plain[OF assms(1) ne assms(3) w]
  note c = psar_run_cols(5-8)[OF w, where j = i]
  have i01: "i = 0 \<or> i = 1" using assms(4) by auto
  have "long w ! i = None" "short w ! i = None" "reversal w ! i = Some 0"
    using c assms(4,5) by simp_all
  moreover have "af_col w ! i = Some (psar_af0 af0 af_arg)"
    using c(4) assms(4,5) i01 by (auto simp: nth_list_update)
  ultimately show thesis using that[OF fr] by simp
qed


subsection \<open>Results of a call, effective parameters, rising series\<close>

lemma psar_returns_frame:
  assumes "length low = length high" "high \<noteq> []" "close_ok close"
  shows "\<exists>w. psar_run zero high low close (psar_paf af_arg) (psar_af0 af0 af_arg)
             (psar_max_af max_af) tv (length high) = Inr w
           \<and> psar zero high low close af0 af_arg max_af tv offset fillna fm =
               Inr (Some (psar_post (v_offset offset) fillna fm w))"
proof -
  obtain w where w: "psar_run zero high low close (psar_paf af_arg) (psar_af0 af0 af_arg)
             (psar_max_af max_af) tv (length high) = Inr w"
    using psar_run_total[OF assms, where n = "length high"] by blast
  have "v_series high 1 = Some high" "v_series low 1 = Some low"
    using assms(1,2) by (cases high; simp add: v_series_def)+
  then show ?thesis using w by (simp add: psar_def)
qed


lemma v_pos_default_pos: "0 < d \<Longrightarrow> 0 < v_pos_default x d"
  by (simp add: v_pos_default_def split: option.splits)

lemma v_pos_default_idem: "0 < d \<Longrightarrow> v_pos_default (Some (v_pos_default x d)) d' = v_pos_default x d"
  using v_pos_default_pos[of d x] by (simp add: v_pos_default_def)

lemma psar_effective_again:
  "psar_paf (Some (psar_paf af_arg)) = psar_paf af_arg"
  "psar_af0 (Some (psar_af0 af0 af_arg)) (Some (psar_paf af_arg)) = psar_af0 af0 af_arg"
  "psar_max_af (Some (psar_max_af max_af)) = psar_max_af max_af"
proof -
  show p: "psar_paf (Some (psar_paf af_arg)) = psar_paf af_arg"
    unfolding psar_paf_def by (rule v_pos_default_idem) simp
  have "0 < psar_paf af_arg" by (rule psar_paf_pos)
  then show "psar_af0 (Some (psar_af0 af0 af_arg)) (Some (psar_paf af_arg)) = psar_af0 af0 af_arg"
    unfolding psar_af0_def by (simp add: p v_pos_default_idem)
  show "psar_max_af (Some (psar_max_af max_af)) = psar_max_af max_af"
    unfolding psar_max_af_def by (rule v_pos_default_idem) simp
qed












subsection \<open>Lengths under the post-processing\<close>

lemma length_ffill_from: "length (ffill_from p xs) = length xs"
  by (induction p xs rule: ffill_from.induct) simp_all

lemma length_fill_col: "length (fill_col fillna fm xs) = length xs"
  by (simp add: fill_col_def fillna_col_def fill_method_col_def Let_def length_ffill_from
      split: option.splits fill_method.splits)

lemma pad_col_same: "length xs = n \<Longrightarrow> pad_col n xs = xs"
  by (simp add: pad_col_def)

lemma fill_col_none: "fill_col None None xs = xs"
  by (simp add: fill_col_def)


lemmas psar_eval =
  psar_def v_series_def v_pos_default_def v_offset_def psar_paf_def psar_af0_def psar_max_af_def
  psar_run_def psar_init_def psar_falling_def sub_col_def dmn_col_def shift_col_def
  psar_row_def psar_track_def psar_flip_def psar_commit_def psar_post_def fill_col_def
  offset_col_def zero_eps_def upt_rec Let_def

section \<open>The claims\<close>

text \<open>
  In the theorems below a valid input is a pair of series \<open>high\<close> and \<open>low\<close> of the
  same length, with a close series that is absent or not empty; the offset is absent
  or 0 and no fill is asked for, so the frame holds the columns as the loop wrote them.
  The parameters \<open>af0\<close>, \<open>af\<close>, \<open>max_af\<close> and \<open>tv\<close> are arbitrary unless a hypothesis
  restricts them. A theorem with the variable \<open>zero\<close> holds for every helper; a
  theorem about the initial direction, which depends on the helper, is stated for
  \<open>zero_eps\<close>.
\<close>

text \<open>
  Claim C1. For every valid input and every parameter setting, at every computed row
  \<open>i\<close> (\<open>2 \<le> i < n\<close>) the call returns a frame in which exactly one of \<open>long[i]\<close> and
  \<open>short[i]\<close> holds a value and the other is missing; the one that holds a value is
  \<open>short[i]\<close> exactly when the direction flag \<open>falling\<close> is true after the update of
  row \<open>i\<close>, and the value is the stop \<open>sar\<close> committed in that row.
\<close>

theorem psar_one_stop_per_row:
  assumes "length low = length high" "close_ok close" "v_offset offset = 0"
    and "2 \<le> i" "i < length high"
  shows "\<exists>fr v. psar zero high low close af0 af_arg max_af tv offset None None = Inr (Some fr)
           \<and> psar_at zero high low close af0 af_arg max_af tv i = Inr v
           \<and> PSARl fr ! i = (if falling v then None else Some (sar v))
           \<and> PSARs fr ! i = (if falling v then Some (sar v) else None)"
proof -
  let ?run = "psar_run zero high low close (psar_paf af_arg) (psar_af0 af0 af_arg)
           (psar_max_af max_af) tv"
  have ne: "high \<noteq> []" using assms(5) by auto
  obtain w where w: "?run (length high) = Inr w"
    using psar_run_total[OF assms(1) ne assms(2), where n = "length high"] by blast
  obtain v where v: "?run i = Inr v"
    using psar_run_total[OF assms(1) ne assms(2), where n = i] assms(5) by (meson less_imp_le_nat)
  obtain u where u: "?run (Suc i) = Inr u"
    using psar_run_total[OF assms(1) ne assms(2), where n = "Suc i"] assms(5) by (meson Suc_leI)
  have row: "psar_row tv (psar_paf af_arg) (psar_af0 af0 af_arg) (psar_max_af max_af) high low i v = Inr u"
    using u v psar_run_Suc[OF assms(4), where zero = zero and high = high and low = low
        and close = close and paf = "psar_paf af_arg" and ?a0.0 = "psar_af0 af0 af_arg"
        and mx = "psar_max_af max_af" and tv = tv] by simp
  note fr = psar_frame_plain[OF assms(1) ne assms(3) w]
  note lat = psar_run_later[OF w u assms(4,5)]
  note wr = psar_row_written[OF v row assms(4,5)]
  show ?thesis
    using fr lat wr u by (simp add: psar_at_def)
qed

theorem psar_one_stop_per_row_witness:
  "length [9, 10, 11, 12 :: real] = length [10, 11, 12, 13 :: real] \<and> close_ok None
   \<and> v_offset None = 0 \<and> (2::nat) \<le> 3 \<and> 3 < length [10, 11, 12, 13 :: real]
   \<and> (\<exists>fr v. psar zero_eps [10, 11, 12, 13] [9, 10, 11, 12] None None None None False
                  None None None = Inr (Some fr)
           \<and> psar_at zero_eps [10, 11, 12, 13] [9, 10, 11, 12] None None None None False 3 = Inr v
           \<and> PSARl fr ! 3 = (if falling v then None else Some (sar v))
           \<and> PSARs fr ! 3 = (if falling v then Some (sar v) else None))"
  using psar_one_stop_per_row[where low = "[9, 10, 11, 12]" and high = "[10, 11, 12, 13]"
      and close = None and offset = None and i = 3 and zero = zero_eps and ?af0.0 = None
      and af_arg = None and max_af = None and tv = False]
  by (simp add: close_ok_def v_offset_def)

text \<open>
  Claim C2. For every valid input, when the effective \<open>af0\<close> (the given one when it is
  positive, else its default) is at most the effective \<open>max_af\<close>, the recorded
  acceleration factor lies between them at every position of the output: \<open>af0 \<le> af[i]
  \<le> max_af\<close>. The effective \<open>af0\<close> is positive by construction.
\<close>

theorem psar_af_within_bounds:
  assumes "length low = length high" "close_ok close" "v_offset offset = 0"
    and "i < length high"
    and "psar_af0 af0 af_arg \<le> psar_max_af max_af"
  shows "\<exists>fr x. psar zero high low close af0 af_arg max_af tv offset None None = Inr (Some fr)
           \<and> PSARaf fr ! i = Some x
           \<and> psar_af0 af0 af_arg \<le> x \<and> x \<le> psar_max_af max_af"
proof (cases "i < 2")
  case True
  from psar_seed_view[OF assms(1-3) True assms(4), where zero = zero and ?af0.0 = af0
      and af_arg = af_arg and max_af = max_af and tv = tv]
  obtain w :: psar_vars where "psar zero high low close af0 af_arg max_af tv offset None None =
       Inr (Some \<lparr> PSARl = long w, PSARs = short w, PSARaf = af_col w, PSARr = reversal w \<rparr>)"
    "af_col w ! i = Some (psar_af0 af0 af_arg)" by blast
  then show ?thesis using assms(5) by simp
next
  case False
  then have i2: "2 \<le> i" by simp
  from psar_row_view[OF assms(1-3) i2 assms(4), where zero = zero and ?af0.0 = af0
      and af_arg = af_arg and max_af = max_af and tv = tv]
  obtain w :: psar_vars and u where fr: "psar zero high low close af0 af_arg max_af tv offset None None =
       Inr (Some \<lparr> PSARl = long w, PSARs = short w, PSARaf = af_col w, PSARr = reversal w \<rparr>)"
    and u: "psar_at zero high low close af0 af_arg max_af tv i = Inr u"
    and a: "af_col w ! i = Some (af u)" by blast
  have "0 \<le> psar_paf af_arg" using psar_paf_pos[of af_arg] by simp
  from psar_run_af_bounds[OF u[unfolded psar_at_def] assms(5) this]
  show ?thesis using fr a by simp
qed

theorem psar_af_within_bounds_witness:
  "length [9, 10, 11, 12 :: real] = length [10, 11, 12, 13 :: real] \<and> close_ok None
   \<and> v_offset None = 0 \<and> 3 < length [10, 11, 12, 13 :: real]
   \<and> psar_af0 (Some 0.05) None \<le> psar_max_af (Some 0.06)
   \<and> (\<exists>fr x. psar zero_eps [10, 11, 12, 13] [9, 10, 11, 12] None (Some 0.05) None (Some 0.06)
                  False None None None = Inr (Some fr)
           \<and> PSARaf fr ! 3 = Some x \<and> 0.05 \<le> x \<and> x \<le> 0.06)"
  using psar_af_within_bounds[where low = "[9, 10, 11, 12]" and high = "[10, 11, 12, 13]"
      and close = None and offset = None and i = 3 and zero = zero_eps
      and ?af0.0 = "Some 0.05" and af_arg = None and max_af = "Some 0.06" and tv = False]
  by (simp add: close_ok_def v_offset_def psar_af0_def psar_max_af_def psar_paf_def
      v_pos_default_def)

text \<open>
  Claim C3. For every valid input and every parameter setting, \<open>reversal[i]\<close> is 0 or
  1 at every position; and when \<open>reversal[i]\<close> is 1, the recorded \<open>af[i]\<close> is \<open>af0\<close>, the
  direction flag after row \<open>i\<close> is the negation of the flag after row \<open>i - 1\<close>, and the
  extreme point after row \<open>i\<close> is \<open>low[i]\<close> when the new direction is falling, else
  \<open>high[i]\<close>.
\<close>

theorem psar_reversal_flag:
  assumes "length low = length high" "close_ok close" "v_offset offset = 0"
    and "i < length high"
  shows "\<exists>fr. psar zero high low close af0 af_arg max_af tv offset None None = Inr (Some fr)
           \<and> (PSARr fr ! i = Some 0 \<or> PSARr fr ! i = Some 1)
           \<and> (PSARr fr ! i = Some 1 \<longrightarrow>
                (\<exists>v u. psar_at zero high low close af0 af_arg max_af tv (i - 1) = Inr v
                   \<and> psar_at zero high low close af0 af_arg max_af tv i = Inr u
                   \<and> PSARaf fr ! i = Some (psar_af0 af0 af_arg)
                   \<and> falling u = (\<not> falling v)
                   \<and> ep u = (if falling u then low ! i else high ! i)))"
proof (cases "i < 2")
  case True
  from psar_seed_view[OF assms(1-3) True assms(4), where zero = zero and ?af0.0 = af0
      and af_arg = af_arg and max_af = max_af and tv = tv]
  obtain w :: psar_vars where "psar zero high low close af0 af_arg max_af tv offset None None =
       Inr (Some \<lparr> PSARl = long w, PSARs = short w, PSARaf = af_col w, PSARr = reversal w \<rparr>)"
    "reversal w ! i = Some 0" by blast
  then show ?thesis by simp
next
  case False
  then have i2: "2 \<le> i" by simp
  from psar_row_view[OF assms(1-3) i2 assms(4), where zero = zero and ?af0.0 = af0
      and af_arg = af_arg and max_af = max_af and tv = tv]
  obtain w :: psar_vars and v u where fr: "psar zero high low close af0 af_arg max_af tv offset None None =
       Inr (Some \<lparr> PSARl = long w, PSARs = short w, PSARaf = af_col w, PSARr = reversal w \<rparr>)"
    and v: "psar_at zero high low close af0 af_arg max_af tv (i - 1) = Inr v"
    and u: "psar_at zero high low close af0 af_arg max_af tv i = Inr u"
    and ueq: "u = psar_commit i (psar_flip tv (psar_af0 af0 af_arg) high low i
           (psar_track (psar_paf af_arg) (psar_max_af max_af) high low i v))"
    and a: "af_col w ! i = Some (af u)"
    and r: "reversal w ! i = Some (if reverse u then 1 else 0)" by blast
  have rev: "reverse u \<Longrightarrow> af u = psar_af0 af0 af_arg \<and> falling u = (\<not> falling v)
      \<and> ep u = (if falling u then low ! i else high ! i)"
    by (simp add: ueq step_fields)
  show ?thesis
    using fr v u a r rev by (cases "reverse u") simp_all
qed

theorem psar_reversal_flag_witness:
  "length [1, 3 / 2, 2 :: real] = length [100, 101, 102 :: real] \<and> close_ok None
   \<and> v_offset None = 0 \<and> 2 < length [100, 101, 102 :: real]
   \<and> (\<exists>fr. psar zero_eps [100, 101, 102] [1, 3 / 2, 2] None None None None False
                  None None None = Inr (Some fr)
           \<and> PSARr fr ! 2 = Some 1
           \<and> (\<exists>v u. psar_at zero_eps [100, 101, 102] [1, 3 / 2, 2] None None None None False
                         (2 - 1) = Inr v
                   \<and> psar_at zero_eps [100, 101, 102] [1, 3 / 2, 2] None None None None False
                         2 = Inr u
                   \<and> PSARaf fr ! 2 = Some (psar_af0 None None)
                   \<and> falling u = (\<not> falling v)
                   \<and> ep u = (if falling u then [1, 3 / 2, 2] ! 2 else [100, 101, 102] ! 2)))"
proof -
  have run: "psar zero_eps [100, 101, 102] [1, 3 / 2, 2] None None None None False None None None
      = Inr (Some \<lparr>PSARl = [None, None, None], PSARs = [None, None, Some 102],
          PSARaf = [Some (1 / 50), Some (1 / 50), Some (1 / 50)],
          PSARr = [Some 0, Some 0, Some 1]\<rparr>)"
    by (simp add: psar_eval)
  show ?thesis
    using psar_reversal_flag[where low = "[1, 3 / 2, 2]" and high = "[100, 101, 102]"
      and close = None and offset = None and i = 2 and zero = zero_eps and ?af0.0 = None
      and af_arg = None and max_af = None and tv = False]
    by (simp add: run close_ok_def v_offset_def)
qed

text \<open>
  Claim C4. With \<open>up = high[1] - high[0]\<close> and \<open>dn = low[0] - low[1]\<close> the claim says
  that the initial direction is falling exactly when \<open>dn > up\<close> and \<open>dn > 0\<close>. The code
  passes the value \<open>dn\<close> (or 0 when that test fails) through the helper \<open>zero\<close> before
  it compares it with 0, and \<open>zero\<close> turns a number below \<open>1 / 2 ^ 52\<close> into 0. A fall
  that is positive but smaller than that gives a rising start: for \<open>high = [10, 9]\<close>
  and \<open>low = [1 / 2 ^ 60, 0]\<close> both tests of the claim hold, and the code starts rising
  with \<open>sar = low[0]\<close> and \<open>ep = high[0]\<close>.
\<close>

theorem psar_small_fall_counterexample:
  "1 / 2 ^ 60 - 0 > (9::real) - 10 \<and> 1 / 2 ^ 60 - 0 > (0::real)
   \<and> psar_init zero_eps [10, 9] [1 / 2 ^ 60, 0] None 0.02 =
       Inr \<lparr> sar = 1 / 2 ^ 60, ep = 10, af = 0.02, falling = False,
             sar_new = 1 / 2 ^ 60, reverse = False,
             long = [None, None], short = [None, None],
             af_col = [Some 0.02, Some 0.02], reversal = [Some 0, Some 0] \<rparr>"
  by (simp add: psar_init_def psar_falling_two zero_eps_def Let_def)

text \<open>
  Claim C4, amended. The initial direction is falling exactly when \<open>dn > up\<close> and
  \<open>dn \<ge> 1 / 2 ^ 52\<close> (a positive \<open>dn\<close> that the helper \<open>zero\<close> does not turn into 0); the
  seeds are \<open>sar = high[0]\<close>, \<open>ep = low[0]\<close> when falling and \<open>sar = low[0]\<close>, \<open>ep =
  high[0]\<close> otherwise (no close given). The scenario of the claim, \<open>high = [10, 11]\<close>
  and \<open>low = [9, 8]\<close>, starts rising with \<open>sar = 9\<close> and \<open>ep = 10\<close>, as the claim says.
\<close>

theorem psar_initial_direction_eps:
  "\<exists>v. psar_init zero_eps (h0 # h1 # hs) (l0 # l1 # ls) None a0 = Inr v
      \<and> falling v = (l0 - l1 > h1 - h0 \<and> l0 - l1 \<ge> 1 / 2 ^ 52)
      \<and> sar v = (if falling v then h0 else l0)
      \<and> ep v = (if falling v then l0 else h0)"
  by (auto simp: psar_init_def psar_falling_two zero_eps_def Let_def split: if_splits)

theorem psar_initial_direction_eps_witness:
  "\<exists>v. psar_init zero_eps [10, 11] [9, 8] None 0.02 = Inr v
      \<and> \<not> falling v \<and> sar v = 9 \<and> ep v = 10"
  using psar_initial_direction_eps[where ?l0.0 = 9 and ?l1.0 = 8 and ?h1.0 = 11 and ?h0.0 = 10
      and hs = "[]" and ls = "[]" and ?a0.0 = "0.02"]
  by auto







text \<open>
  Claim C7. The claim says that \<open>psar\<close> fails with an error whenever \<open>af0\<close>, \<open>af\<close> or
  \<open>max_af\<close> is not positive, or \<open>af0 > max_af\<close>. The code compares \<open>af0\<close> with \<open>max_af\<close>
  nowhere: with \<open>af0 = 0.5\<close> and \<open>max_af = 0.2\<close> it returns a frame (whose \<open>af\<close> drops
  from 0.5 to 0.2 at the first new extreme).
\<close>

theorem psar_af0_above_max_counterexample:
  "psar zero_eps [10, 11, 12] [9, 10, 11] None (Some 0.5) None (Some 0.2) False None None None =
     Inr (Some \<lparr>PSARl = [None, None, Some 9], PSARs = [None, None, None],
          PSARaf = [Some 0.5, Some 0.5, Some 0.2],
          PSARr = [Some 0, Some 0, Some 0]\<rparr>)"
  by (simp add: psar_eval)

text \<open>
  Claim C7, amended. On valid series \<open>psar\<close> returns a frame for every \<open>af0\<close>, \<open>af\<close>
  and \<open>max_af\<close>, given or not, positive or not, in any order: a parameter that is
  left out or not positive is replaced by its default (0.02 for \<open>af\<close>, the effective
  \<open>af\<close> for \<open>af0\<close>, 0.2 for \<open>max_af\<close>), so the call equals the call with the effective
  parameters given, and \<open>af0 > max_af\<close> is accepted.
\<close>

theorem psar_parameters_accepted:
  assumes "length low = length high" "high \<noteq> []" "close_ok close"
  shows "(\<exists>fr. psar zero high low close af0 af_arg max_af tv offset fillna fm = Inr (Some fr))
     \<and> psar zero high low close af0 af_arg max_af tv offset fillna fm =
         psar zero high low close (Some (psar_af0 af0 af_arg)) (Some (psar_paf af_arg))
           (Some (psar_max_af max_af)) tv offset fillna fm
     \<and> psar_paf af_arg = (case af_arg of None \<Rightarrow> 0.02 | Some x \<Rightarrow> if 0 < x then x else 0.02)
     \<and> psar_af0 af0 af_arg =
         (case af0 of None \<Rightarrow> psar_paf af_arg | Some x \<Rightarrow> if 0 < x then x else psar_paf af_arg)
     \<and> psar_max_af max_af = (case max_af of None \<Rightarrow> 0.2 | Some x \<Rightarrow> if 0 < x then x else 0.2)"
proof -
  have f1: "\<exists>fr. psar zero high low close af0 af_arg max_af tv offset fillna fm = Inr (Some fr)"
    using psar_returns_frame[OF assms, where zero = zero and af_arg = af_arg and ?af0.0 = af0
        and max_af = max_af and tv = tv and offset = offset and fillna = fillna and fm = fm]
    by blast
  have f2: "psar zero high low close af0 af_arg max_af tv offset fillna fm =
         psar zero high low close (Some (psar_af0 af0 af_arg)) (Some (psar_paf af_arg))
           (Some (psar_max_af max_af)) tv offset fillna fm"
    unfolding psar_def psar_effective_again ..
  have e1: "psar_paf af_arg = (case af_arg of None \<Rightarrow> 0.02 | Some x \<Rightarrow> if 0 < x then x else 0.02)"
    by (simp add: psar_paf_def v_pos_default_def split: option.splits)
  have e2: "psar_af0 af0 af_arg =
         (case af0 of None \<Rightarrow> psar_paf af_arg | Some x \<Rightarrow> if 0 < x then x else psar_paf af_arg)"
    by (simp add: psar_af0_def v_pos_default_def split: option.splits)
  have e3: "psar_max_af max_af = (case max_af of None \<Rightarrow> 0.2 | Some x \<Rightarrow> if 0 < x then x else 0.2)"
    by (simp add: psar_max_af_def v_pos_default_def split: option.splits)
  show ?thesis by (intro conjI f1 f2 e1 e2 e3)
qed

theorem psar_parameters_accepted_witness:
  "length [9, 10, 11 :: real] = length [10, 11, 12 :: real] \<and> [10, 11, 12 :: real] \<noteq> []
   \<and> close_ok None
   \<and> psar zero_eps [10, 11, 12] [9, 10, 11] None (Some (- 1)) (Some 0) None False None None None =
       Inr (Some \<lparr>PSARl = [None, None, Some 9], PSARs = [None, None, None],
          PSARaf = [Some 0.02, Some 0.02, Some 0.04],
          PSARr = [Some 0, Some 0, Some 0]\<rparr>)
   \<and> psar zero_eps [10, 11, 12] [9, 10, 11] None (Some (- 1)) (Some 0) None False None None None =
       psar zero_eps [10, 11, 12] [9, 10, 11] None (Some 0.02) (Some 0.02) (Some 0.2) False
         None None None
   \<and> psar_paf (Some 0) = 0.02 \<and> psar_af0 (Some (- 1)) (Some 0) = 0.02 \<and> psar_max_af None = 0.2"
proof -
  have run: "psar zero_eps [10, 11, 12] [9, 10, 11] None (Some (- 1)) (Some 0) None False
      None None None =
       Inr (Some \<lparr>PSARl = [None, None, Some 9], PSARs = [None, None, None],
          PSARaf = [Some 0.02, Some 0.02, Some 0.04],
          PSARr = [Some 0, Some 0, Some 0]\<rparr>)"
    by (simp add: psar_eval)
  have eff: "psar_paf (Some 0) = 0.02" "psar_af0 (Some (- 1)) (Some 0) = 0.02"
    "psar_max_af None = 0.2"
    by (simp_all add: psar_paf_def psar_af0_def psar_max_af_def v_pos_default_def)
  show ?thesis
    using psar_parameters_accepted[where low = "[9, 10, 11]" and high = "[10, 11, 12]"
      and close = None and zero = zero_eps and ?af0.0 = "Some (- 1)" and af_arg = "Some 0"
      and max_af = None and tv = False and offset = None and fillna = None and fm = None]
    by (simp add: close_ok_def run eff)
qed

text \<open>
  Claim C8. The claim says that the step \<open>af\<close>, when left out, defaults to \<open>af0\<close>, so
  that with \<open>af0\<close> given each new extreme adds \<open>af0\<close> to the acceleration factor. In
  the code the default of \<open>af\<close> is 0.02 and it is \<open>af0\<close> that defaults to \<open>af\<close>: with
  \<open>af0 = 0.05\<close> and no \<open>af\<close> the factor goes from 0.05 to 0.07 at the first new
  extreme, not to 0.10.
\<close>

theorem psar_step_not_af0_counterexample:
  "psar zero_eps [10, 11, 12] [9, 10, 11] None (Some 0.05) None None False None None None =
     Inr (Some \<lparr>PSARl = [None, None, Some 9], PSARs = [None, None, None],
          PSARaf = [Some 0.05, Some 0.05, Some 0.07],
          PSARr = [Some 0, Some 0, Some 0]\<rparr>)"
  by (simp add: psar_eval)

text \<open>
  Claim C8, amended. When \<open>af\<close> is left out the step is 0.02, whatever \<open>af0\<close> is: at
  every computed row without a reversal where the bar sets a new extreme (a low below
  the extreme point when falling, a high above it when rising), the acceleration factor
  after the row is the one before plus 0.02, capped at \<open>max_af\<close>.
\<close>

theorem psar_default_step:
  assumes "length low = length high" "close_ok close" "2 \<le> i" "i < length high"
  shows "psar_paf None = 0.02
     \<and> (\<exists>v u. psar_at zero high low close af0 None max_af tv (i - 1) = Inr v
           \<and> psar_at zero high low close af0 None max_af tv i = Inr u
           \<and> (\<not> reverse u \<longrightarrow> (if falling v then low ! i < ep v else high ! i > ep v) \<longrightarrow>
                af u = min (af v + 0.02) (psar_max_af max_af)))"
proof -
  have p: "psar_paf None = 0.02" by (simp add: psar_paf_def v_pos_default_def)
  have off: "v_offset None = 0" by (simp add: v_offset_def)
  from psar_row_view[OF assms(1,2) off assms(3,4), where zero = zero and ?af0.0 = af0
      and af_arg = None and max_af = max_af and tv = tv]
  obtain v u where v: "psar_at zero high low close af0 None max_af tv (i - 1) = Inr v"
    and u: "psar_at zero high low close af0 None max_af tv i = Inr u"
    and ueq: "u = psar_commit i (psar_flip tv (psar_af0 af0 None) high low i
           (psar_track (psar_paf None) (psar_max_af max_af) high low i v))"
    by blast
  have "\<not> reverse u \<Longrightarrow> (if falling v then low ! i < ep v else high ! i > ep v) \<Longrightarrow>
                af u = min (af v + 0.02) (psar_max_af max_af)"
    by (simp add: ueq step_fields track_af p)
  then show ?thesis using p v u by blast
qed

theorem psar_default_step_witness:
  "length [9, 10, 11 :: real] = length [10, 11, 12 :: real] \<and> close_ok None
   \<and> (2::nat) \<le> 2 \<and> 2 < length [10, 11, 12 :: real]
   \<and> psar_paf None = 0.02
   \<and> (\<exists>v u. psar_at zero_eps [10, 11, 12] [9, 10, 11] None (Some 0.05) None None False (2 - 1)
                = Inr v
           \<and> psar_at zero_eps [10, 11, 12] [9, 10, 11] None (Some 0.05) None None False 2 = Inr u
           \<and> \<not> reverse u \<and> \<not> falling v \<and> [10, 11, 12] ! 2 > ep v
           \<and> af v = 0.05 \<and> af u = 0.07)"
  using psar_default_step[where low = "[9, 10, 11]" and high = "[10, 11, 12]" and close = None
      and i = 2 and zero = zero_eps and ?af0.0 = "Some 0.05" and max_af = None and tv = False]
  by (simp add: close_ok_def psar_at_def psar_eval)

text \<open>
  Claim C9. In \<open>brar\<close>, when the offset is not 0, the second output \<open>BR\<close> is made by
  shifting the first output \<open>AR\<close> (line 67 shifts \<open>ar\<close>, already shifted by line 66),
  not by shifting \<open>br\<close>: whenever the four series have the \<open>length\<close> points asked for,
  the call returns a frame whose \<open>BR\<close> column is the fill of the twice shifted \<open>ar\<close>
  and does not depend on the \<open>br\<close> computed from the close; with no fill, the returned
  \<open>BR\<close> column is the returned \<open>AR\<close> column shifted by the offset. The witness also
  shows the \<open>br\<close> that an independent shift would have returned.
\<close>

theorem brar_br_is_shifted_ar:
  assumes "brar_length len \<le> length open_s" "brar_length len \<le> length high"
    and "brar_length len \<le> length low" "brar_length len \<le> length close"
    and "v_offset offset \<noteq> 0"
  shows "\<exists>fr. brar non_zero_range get_drift open_s high low close len scalar drift offset
                fillna fm = Some fr
           \<and> AR fr = fill_col (map_option Fin fillna) fm
                (shift_col (v_offset offset)
                  (brar_ar non_zero_range open_s high low (brar_length len) (brar_scalar scalar)))
           \<and> BR fr = fill_col (map_option Fin fillna) fm
                (shift_col (v_offset offset) (shift_col (v_offset offset)
                  (brar_ar non_zero_range open_s high low (brar_length len) (brar_scalar scalar))))
           \<and> (fillna = None \<and> fm = None \<longrightarrow> BR fr = shift_col (v_offset offset) (AR fr))"
proof -
  let ?k = "v_offset offset"
  let ?ar0 = "brar_ar non_zero_range open_s high low (brar_length len) (brar_scalar scalar)"
  let ?f = "fill_col (map_option Fin fillna) fm"
  have "brar non_zero_range get_drift open_s high low close len scalar drift offset fillna fm =
      Some \<lparr> AR = ?f (shift_col ?k ?ar0), BR = ?f (shift_col ?k (shift_col ?k ?ar0)) \<rparr>"
    using assms by (simp add: brar_def v_series_def Let_def length_fill_col pad_col_same)
  moreover have "fillna = None \<and> fm = None \<longrightarrow>
      ?f (shift_col ?k (shift_col ?k ?ar0)) = shift_col ?k (?f (shift_col ?k ?ar0))"
    by (simp add: fill_col_none)
  ultimately show ?thesis by simp
qed

theorem brar_br_is_shifted_ar_witness:
  "brar_length (Some 2) \<le> length [10, 11, 12, 13 :: real]
   \<and> brar_length (Some 2) \<le> length [12, 13, 15, 16 :: real]
   \<and> brar_length (Some 2) \<le> length [9, 10, 11, 11 :: real]
   \<and> brar_length (Some 2) \<le> length [11, 12, 14, 15 :: real]
   \<and> v_offset (Some 1) \<noteq> 0
   \<and> brar non_zero_range_eps get_drift_or_one [10, 11, 12, 13] [12, 13, 15, 16] [9, 10, 11, 11]
        [11, 12, 14, 15] (Some 2) None None (Some 1) None None =
       Some \<lparr>AR = [None, None, Some (Fin 200), Some (Fin 250)],
              BR = [None, None, None, Some (Fin 200)]\<rparr>
   \<and> (\<exists>fr. brar non_zero_range_eps get_drift_or_one [10, 11, 12, 13] [12, 13, 15, 16]
              [9, 10, 11, 11] [11, 12, 14, 15] (Some 2) None None (Some 1) None None = Some fr
          \<and> BR fr = shift_col (v_offset (Some 1)) (AR fr))
   \<and> shift_col (v_offset (Some 1))
        (brar_br non_zero_range_eps [12, 13, 15, 16] [9, 10, 11, 11] [11, 12, 14, 15]
           (brar_length (Some 2)) (brar_scalar None) (get_drift_or_one None)) =
       [None, None, None, Some (Fin 250)]"
proof -
  have h: "brar_length (Some 2) \<le> length [10, 11, 12, 13 :: real]"
    "brar_length (Some 2) \<le> length [12, 13, 15, 16 :: real]"
    "brar_length (Some 2) \<le> length [9, 10, 11, 11 :: real]"
    "brar_length (Some 2) \<le> length [11, 12, 14, 15 :: real]"
    "v_offset (Some 1) \<noteq> 0"
    by (simp_all add: brar_length_def v_offset_def)
  have run: "brar non_zero_range_eps get_drift_or_one [10, 11, 12, 13] [12, 13, 15, 16]
      [9, 10, 11, 11] [11, 12, 14, 15] (Some 2) None None (Some 1) None None =
       Some \<lparr>AR = [None, None, Some (Fin 200), Some (Fin 250)],
              BR = [None, None, None, Some (Fin 200)]\<rparr>"
    by code_simp
  have other: "shift_col (v_offset (Some 1))
        (brar_br non_zero_range_eps [12, 13, 15, 16] [9, 10, 11, 11] [11, 12, 14, 15]
           (brar_length (Some 2)) (brar_scalar None) (get_drift_or_one None)) =
       [None, None, None, Some (Fin 250)]"
    by code_simp
  from brar_br_is_shifted_ar[OF h, where non_zero_range = non_zero_range_eps
      and get_drift = get_drift_or_one and scalar = None and drift = None
      and fillna = None and fm = None]
  have "\<exists>fr. brar non_zero_range_eps get_drift_or_one [10, 11, 12, 13] [12, 13, 15, 16]
              [9, 10, 11, 11] [11, 12, 14, 15] (Some 2) None None (Some 1) None None = Some fr
          \<and> BR fr = shift_col (v_offset (Some 1)) (AR fr)"
    by blast
  then show ?thesis using h run other by blast
qed

text \<open>
  Claim C10. For every valid input of length at least 2, with no offset and no fill,
  the positions 0 and 1 of the output have \<open>long\<close> and \<open>short\<close> both missing, \<open>reversal\<close>
  equal to 0 and \<open>af\<close> equal to \<open>af0\<close>.
\<close>

theorem psar_seed_rows:
  assumes "length low = length high" "close_ok close" "v_offset offset = 0"
    and "2 \<le> length high"
  shows "\<exists>fr. psar zero high low close af0 af_arg max_af tv offset None None = Inr (Some fr)
           \<and> PSARl fr ! 0 = None \<and> PSARs fr ! 0 = None
           \<and> PSARl fr ! 1 = None \<and> PSARs fr ! 1 = None
           \<and> PSARr fr ! 0 = Some 0 \<and> PSARr fr ! 1 = Some 0
           \<and> PSARaf fr ! 0 = Some (psar_af0 af0 af_arg)
           \<and> PSARaf fr ! 1 = Some (psar_af0 af0 af_arg)"
proof -
  have l0: "0 < length high" and l1: "1 < length high" using assms(4) by auto
  have z2: "(0::nat) < 2" and o2: "(1::nat) < 2" by simp_all
  from psar_seed_view[OF assms(1-3) z2 l0, where zero = zero and ?af0.0 = af0
      and af_arg = af_arg and max_af = max_af and tv = tv]
  obtain w :: psar_vars where w: "psar zero high low close af0 af_arg max_af tv offset None None =
       Inr (Some \<lparr> PSARl = long w, PSARs = short w, PSARaf = af_col w, PSARr = reversal w \<rparr>)"
    "long w ! 0 = None" "short w ! 0 = None"
    "af_col w ! 0 = Some (psar_af0 af0 af_arg)" "reversal w ! 0 = Some 0"
    by blast
  from psar_seed_view[OF assms(1-3) o2 l1, where zero = zero and ?af0.0 = af0
      and af_arg = af_arg and max_af = max_af and tv = tv]
  obtain w' :: psar_vars where w': "psar zero high low close af0 af_arg max_af tv offset None None =
       Inr (Some \<lparr> PSARl = long w', PSARs = short w', PSARaf = af_col w', PSARr = reversal w' \<rparr>)"
    "long w' ! 1 = None" "short w' ! 1 = None"
    "af_col w' ! 1 = Some (psar_af0 af0 af_arg)" "reversal w' ! 1 = Some 0"
    by blast
  from w(1) w'(1) have "long w' = long w" "short w' = short w" "af_col w' = af_col w"
    "reversal w' = reversal w" by simp_all
  with w w' show ?thesis by simp
qed

theorem psar_seed_rows_witness:
  "length [9, 8 :: real] = length [10, 11 :: real] \<and> close_ok None \<and> v_offset None = 0
   \<and> 2 \<le> length [10, 11 :: real]
   \<and> (\<exists>fr. psar zero_eps [10, 11] [9, 8] None None None None False None None None
                = Inr (Some fr)
           \<and> PSARl fr ! 0 = None \<and> PSARs fr ! 0 = None
           \<and> PSARl fr ! 1 = None \<and> PSARs fr ! 1 = None
           \<and> PSARr fr ! 0 = Some 0 \<and> PSARr fr ! 1 = Some 0
           \<and> PSARaf fr ! 0 = Some 0.02 \<and> PSARaf fr ! 1 = Some 0.02)"
  using psar_seed_rows[where low = "[9, 8]" and high = "[10, 11]" and close = None
      and offset = None and zero = zero_eps and ?af0.0 = None and af_arg = None
      and max_af = None and tv = False]
  by (simp add: close_ok_def v_offset_def psar_af0_def psar_paf_def v_pos_default_def)

end
